theory Spec2Isabelle
  imports Main "HOL-Library.Word"
begin

section \<open>The node API client of iota.lib.go (node\_api\_client.go)\<close>

text \<open>
  The client marshals a request, performs one HTTP round trip and decodes the response
  envelope. The standard library (encoding/json, net/http, io) and the injected HTTP
  transport are not part of the repository: they are parameters of the model. Everything
  the source file itself does (the order of the checks, the status switch, the error
  values, the routes, what is passed by pointer and what by value, when the body is
  closed) is written out.
\<close>

subsection \<open>Errors\<close>

text \<open>
  A Go \<open>error\<close> value. \<open>New\<close> is \<open>errors.New\<close>; \<open>Errorf\<close> is the result of
  \<open>fmt.Errorf\<close> with one \<open>%w\<close> verb: the formatted text and the wrapped error;
  \<open>JSON\<close> is an error value of encoding/json; \<open>Foreign\<close> is any other error made outside
  this package (net, url, io).
\<close>

datatype json_error = SyntaxError string | UnmarshalTypeError string

datatype error =
    New string
  | Errorf string error
  | JSON json_error
  | Foreign string

fun json_text :: "json_error \<Rightarrow> string" where
  "json_text (SyntaxError s) = s"
| "json_text (UnmarshalTypeError s) = s"

text \<open>The \<open>Error()\<close> method: the text of an error.\<close>

fun Error :: "error \<Rightarrow> string" where
  "Error (New s) = s"
| "Error (Errorf s e) = s"
| "Error (JSON j) = json_text j"
| "Error (Foreign s) = s"

text \<open>\<open>errors.Is\<close>: the target is the error itself or is reached by unwrapping.\<close>

fun errors_Is :: "error \<Rightarrow> error \<Rightarrow> bool" where
  "errors_Is (Errorf s e) target = (Errorf s e = target \<or> errors_Is e target)"
| "errors_Is (New s) target = (New s = target)"
| "errors_Is (JSON j) target = (JSON j = target)"
| "errors_Is (Foreign s) target = (Foreign s = target)"

definition ErrHTTPBadRequest :: error where
  "ErrHTTPBadRequest = New ''bad request''"

definition ErrHTTPInternalServerError :: error where
  "ErrHTTPInternalServerError = New ''internal server error''"

definition ErrHTTPNotFound :: error where
  "ErrHTTPNotFound = New ''not found''"

definition ErrHTTPUnauthorized :: error where
  "ErrHTTPUnauthorized = New ''unauthorized''"

definition ErrHTTPUnknownError :: error where
  "ErrHTTPUnknownError = New ''unknown error''"

definition ErrHTTPNotImplemented :: error where
  "ErrHTTPNotImplemented = New ''operation not implemented/supported/available''"

text \<open>The status constants of net/http that the file names.\<close>

definition http_StatusOK :: int where "http_StatusOK = 200"
definition http_StatusCreated :: int where "http_StatusCreated = 201"
definition http_StatusBadRequest :: int where "http_StatusBadRequest = 400"
definition http_StatusUnauthorized :: int where "http_StatusUnauthorized = 401"
definition http_StatusNotFound :: int where "http_StatusNotFound = 404"
definition http_StatusInternalServerError :: int where "http_StatusInternalServerError = 500"
definition http_StatusNotImplemented :: int where "http_StatusNotImplemented = 501"

definition httpCodeToErr :: "int \<rightharpoonup> error" where
  "httpCodeToErr = map_of
     [(http_StatusBadRequest, ErrHTTPBadRequest),
      (http_StatusInternalServerError, ErrHTTPInternalServerError),
      (http_StatusNotFound, ErrHTTPNotFound),
      (http_StatusUnauthorized, ErrHTTPUnauthorized),
      (http_StatusNotImplemented, ErrHTTPNotImplemented)]"

definition contentTypeJSON :: string where
  "contentTypeJSON = ''application/json''"

subsection \<open>Requests, responses and the client\<close>

text \<open>
  \<open>URL\<close> is the request URL in its text form (\<open>URL.String()\<close>); \<open>Header\<close> is an
  association list, newest entry first.
\<close>

record Request =
  Method :: string
  URL :: string
  Payload :: "string option"
  Header :: "(string \<times> string) list"

definition Header_Set :: "Request \<Rightarrow> string \<Rightarrow> string \<Rightarrow> Request" where
  "Header_Set req k v = req\<lparr>Header := (k, v) # filter (\<lambda>kv. fst kv \<noteq> k) (Header req)\<rparr>"

text \<open>
  A response body is an \<open>io.ReadCloser\<close>. \<open>stream\<close> is what reading it to the end
  yields (the bytes up to EOF, or a read error); \<open>drained\<close> records that it has been read
  to EOF and \<open>closed\<close> that \<open>Close\<close> has been called.
\<close>

record ReadCloser =
  stream :: "error + string"
  drained :: bool
  closed :: bool

definition ioutil_ReadAll :: "ReadCloser \<Rightarrow> (error + string) \<times> ReadCloser" where
  "ioutil_ReadAll b =
     (case stream b of
        Inl e \<Rightarrow> (Inl e, b)
      | Inr bytes \<Rightarrow> (Inr bytes, b\<lparr>drained := True\<rparr>))"

definition Close :: "ReadCloser \<Rightarrow> ReadCloser" where
  "Close b = b\<lparr>closed := True\<rparr>"

record Response =
  StatusCode :: int
  Body :: ReadCloser
  Request :: Request

text \<open>
  \<open>NodeAPI\<close>: the base URL and the HTTP client, which is what its \<open>Do\<close> method answers to
  a request: a transport error or a response.
\<close>

record NodeAPI =
  HTTPClient :: "Request \<Rightarrow> error + Response"
  BaseURL :: string

definition NewNodeAPI :: "string \<Rightarrow> (Request \<Rightarrow> error + Response) list \<Rightarrow>
    (Request \<Rightarrow> error + Response) \<Rightarrow> NodeAPI" where
  "NewNodeAPI baseURL httpClient zeroClient =
     (if length httpClient > 0
      then \<lparr>HTTPClient = hd httpClient, BaseURL = baseURL\<rparr>
      else \<lparr>HTTPClient = zeroClient, BaseURL = baseURL\<rparr>)"

text \<open>
  The error response schema: the fields \<open>Code\<close> and \<open>Message\<close> of the struct under
  the envelope's \<open>error\<close> key (\<open>errRes.Error.Code\<close>, \<open>errRes.Error.Message\<close>).
\<close>

record httperrresponse =
  Code :: int
  Message :: string

subsection \<open>Decode targets\<close>

text \<open>
  The \<open>interface{}\<close> argument \<open>resObj\<close>/\<open>decodeTo\<close> refers to the caller's variable
  \<open>res\<close> in one of three ways: it is the nil interface (\<open>NilIface\<close>), it holds a copy of the
  value of \<open>res\<close> (\<open>ByValue\<close>: a non-pointer such as a nil slice was passed; the interface is
  not nil), or it holds a pointer to it (\<open>ByPointer\<close>). The contents of the caller's variable
  are threaded through the call as explicit state: a callee can change them only
  through a pointer.
\<close>

datatype target = NilIface | ByValue | ByPointer

text \<open>
  The standard library the client runs against.
  \<^item> \<open>json_Marshal\<close>: \<open>json.Marshal\<close> of the request object.
  \<^item> \<open>http_NewRequest\<close>: \<open>http.NewRequest\<close> of method, URL and optional payload.
  \<^item> \<open>json_Unmarshal_err\<close>: \<open>json.Unmarshal\<close> of the body into a fresh
    \<open>&httperrresponse{}\<close>: a JSON error or the decoded struct.
  \<^item> \<open>json_Unmarshal_ok\<close>: \<open>json.Unmarshal\<close> of the body into
    \<open>&httpokresponse{Data: decodeTo}\<close>, given how \<open>decodeTo\<close> refers to the value and
    the value before: the error returned and the value as the decoder leaves it (which it
    may have written in part even when it returns an error).
\<close>

record ('q, 'v) stdlib =
  json_Marshal :: "'q \<Rightarrow> error + string"
  http_NewRequest :: "string \<Rightarrow> string \<Rightarrow> string option \<Rightarrow> error + Request"
  json_Unmarshal_err :: "string \<Rightarrow> json_error + httperrresponse"
  json_Unmarshal_ok :: "string \<Rightarrow> target \<Rightarrow> 'v \<Rightarrow> error option \<times> 'v"

subsection \<open>interpretBody and do\<close>

text \<open>
  \<open>Unmarshal_okRes\<close> is the call \<open>json.Unmarshal(resBody, okRes)\<close> with
  \<open>okRes = &httpokresponse{Data: decodeTo}\<close>, seen from the caller: what the decoder
  writes reaches the caller's variable only when \<open>decodeTo\<close> holds a pointer to it;
  otherwise the decoder works on the envelope's own copy and the variable keeps its value.
\<close>

definition Unmarshal_okRes ::
    "('q, 'v) stdlib \<Rightarrow> string \<Rightarrow> target \<Rightarrow> 'v \<Rightarrow> error option \<times> 'v" where
  "Unmarshal_okRes lib resBody decodeTo v =
     (case json_Unmarshal_ok lib resBody decodeTo v of
        (err, v') \<Rightarrow> (err, if decodeTo = ByPointer then v' else v))"

text \<open>
  \<open>interpretBody\<close> returns the error (\<open>None\<close> is nil), the caller's variable after the
  call and the body after the call. The deferred \<open>Close\<close> is registered only after the
  read has succeeded.
\<close>

definition interpretBody ::
    "('q, 'v) stdlib \<Rightarrow> Response \<Rightarrow> target \<Rightarrow> 'v \<Rightarrow> error option \<times> 'v \<times> ReadCloser" where
  "interpretBody lib res decodeTo v =
     (case ioutil_ReadAll (Body res) of
        (Inl err, body) \<Rightarrow>
          (Some (Errorf (''unable to read response body: '' @ Error err) err), v, body)
      | (Inr resBody, body) \<Rightarrow>
          if StatusCode res = http_StatusOK \<or> StatusCode res = http_StatusCreated
          then (case Unmarshal_okRes lib resBody decodeTo v of
                  (err, v') \<Rightarrow> (err, v', Close body))
          else
            (case json_Unmarshal_err lib resBody of
               Inl jerr \<Rightarrow>
                 (Some (Errorf (''unable to read error from response body: ''
                                 @ Error (JSON jerr)) (JSON jerr)),
                  v, Close body)
             | Inr errRes \<Rightarrow>
                 let err = (case httpCodeToErr (StatusCode res) of
                              Some e \<Rightarrow> e
                            | None \<Rightarrow> ErrHTTPUnknownError)
                 in (Some (Errorf (Error err @ '': url '' @ URL (Request res)
                                    @ '', error message: '' @ Message errRes) err),
                     v, Close body)))"

text \<open>
  \<open>do\<close> returns the error, the caller's variable after the call, and the response body
  after the call when a response was obtained. \<open>marshal_reqObj\<close> is its first step: the
  bytes of the request object, none for a nil request object.
\<close>

definition marshal_reqObj :: "('q, 'v) stdlib \<Rightarrow> 'q option \<Rightarrow> error + string option" where
  "marshal_reqObj lib reqObj =
     (case reqObj of
        None \<Rightarrow> Inr None
      | Some q \<Rightarrow> (case json_Marshal lib q of
                    Inl err \<Rightarrow> Inl err
                  | Inr bytes \<Rightarrow> Inr (Some bytes)))"

definition do ::
    "('q, 'v) stdlib \<Rightarrow> NodeAPI \<Rightarrow> string \<Rightarrow> string \<Rightarrow> 'q option \<Rightarrow> target \<Rightarrow> 'v
      \<Rightarrow> error option \<times> 'v \<times> ReadCloser option" where
  "do lib api method route reqObj resObj v =
     (case marshal_reqObj lib reqObj of
        Inl err \<Rightarrow> (Some err, v, None)
      | Inr data \<Rightarrow>
          (case http_NewRequest lib method (BaseURL api @ route) data of
             Inl err \<Rightarrow> (Some err, v, None)
           | Inr req0 \<Rightarrow>
               let req = (if data \<noteq> None
                          then Header_Set req0 ''Content-Type'' contentTypeJSON
                          else req0)
               in (case HTTPClient api req of
                     Inl err \<Rightarrow> (Some err, v, None)
                   | Inr res \<Rightarrow>
                       if resObj = NilIface then (None, v, Some (Body res))
                       else (case interpretBody lib res resObj v of
                               (err, v', body) \<Rightarrow> (err, v', Some body)))))"

subsection \<open>Response types\<close>

text \<open>A Go slice is nil or holds a sequence of elements.\<close>

datatype 'a slice = NilSlice | Slice "'a list"

fun len :: "'a slice \<Rightarrow> nat" where
  "len NilSlice = 0"
| "len (Slice xs) = length xs"

record NodeInfoResponse =
  Name :: string
  Version :: string
  IsHealthy :: bool
  OperatingNetwork :: string
  Peers :: int
  CoordinatorAddress :: string
  IsSynced :: bool
  LatestMilestoneHash :: string
  LatestMilestoneIndex :: "64 word"
  LatestSolidMilestoneHash :: string
  LatestSolidMilestoneIndex :: "64 word"
  PruningIndex :: "64 word"
  Time :: "64 word"
  Features :: "string slice"

text \<open>The zero value \<open>NodeInfoResponse{}\<close>.\<close>

definition NodeInfoResponse_zero :: NodeInfoResponse where
  "NodeInfoResponse_zero =
     \<lparr>Name = [], Version = [], IsHealthy = False, OperatingNetwork = [], Peers = 0,
      CoordinatorAddress = [], IsSynced = False, LatestMilestoneHash = [],
      LatestMilestoneIndex = 0, LatestSolidMilestoneHash = [],
      LatestSolidMilestoneIndex = 0, PruningIndex = 0, Time = 0, Features = NilSlice\<rparr>"

record NodeTipsResponse =
  Tip1 :: string
  Tip2 :: string

definition NodeTipsResponse_zero :: NodeTipsResponse where
  "NodeTipsResponse_zero = \<lparr>Tip1 = [], Tip2 = []\<rparr>"

record NodeObjectReferencedResponse =
  IsReferencedByMilestone :: bool
  MilestoneIndex :: "64 word"
  MilestoneTimestamp :: "64 word"

record NodeOutputResponse =
  Address :: string
  Amount :: "64 word"
  Spent :: bool

subsection \<open>Query strings\<close>

definition http_MethodGet :: string where
  "http_MethodGet = ''GET''"

text \<open>
  \<open>strings.Join\<close>: nothing for no element, the element itself for one, otherwise the
  first element followed by separator and element for each of the rest.
\<close>

definition strings_Join :: "string list \<Rightarrow> string \<Rightarrow> string" where
  "strings_Join elems sep =
     (case elems of
        [] \<Rightarrow> []
      | [e] \<Rightarrow> e
      | e # es \<Rightarrow> foldl (\<lambda>b s. b @ sep @ s) e es)"

text \<open>
  Modelled from the spec: \<open>HashesToHex\<close> and \<open>UTXOInputIDs.ToHex\<close> are called by the
  source file but defined elsewhere in the repository. The spec describes them as the
  hash/ID-to-hex-string encoder that gives each input its hexadecimal text representation;
  the encoder of a single hash or ID is the parameter \<open>hex\<close>.
\<close>

definition HashesToHex :: "('h \<Rightarrow> string) \<Rightarrow> 'h list \<Rightarrow> string list" where
  "HashesToHex hex hashes = map hex hashes"

definition ToHex :: "('h \<Rightarrow> string) \<Rightarrow> 'h list \<Rightarrow> string list" where
  "ToHex hex utxosID = map hex utxosID"

text \<open>The \<open>query\<close> string each list endpoint builds with its \<open>strings.Builder\<close>.\<close>

definition MessagesByHash_query :: "('h \<Rightarrow> string) \<Rightarrow> 'h list \<Rightarrow> string" where
  "MessagesByHash_query hex hashes =
     ''/messages/by-hash?hashes='' @ strings_Join (HashesToHex hex hashes) '',''"

definition AreMessagesReferencedByMilestone_query ::
    "('h \<Rightarrow> string) \<Rightarrow> 'h list \<Rightarrow> string" where
  "AreMessagesReferencedByMilestone_query hex hashes =
     ''/messages/by-hash/is-referenced-by-milestone?hashes=''
       @ strings_Join (HashesToHex hex hashes) '',''"

definition AreTransactionsReferencedByMilestone_query ::
    "('h \<Rightarrow> string) \<Rightarrow> 'h list \<Rightarrow> string" where
  "AreTransactionsReferencedByMilestone_query hex hashes =
     ''/transaction-messages/is-confirmed?hashes=''
       @ strings_Join (HashesToHex hex hashes) '',''"

definition OutputsByHash_query :: "('h \<Rightarrow> string) \<Rightarrow> 'h list \<Rightarrow> string" where
  "OutputsByHash_query hex utxosID =
     ''/outputs/by-hash?hashes='' @ strings_Join (ToHex hex utxosID) '',''"

subsection \<open>Endpoint methods\<close>

text \<open>
  A returned pointer is \<open>None\<close> when nil and otherwise \<open>Some\<close> of the struct it points
  to. \<open>Info\<close> and \<open>Tips\<close> hand \<open>do\<close> a pointer to a fresh zero struct.
\<close>

definition Info ::
    "('q, NodeInfoResponse) stdlib \<Rightarrow> NodeAPI \<Rightarrow> NodeInfoResponse option \<times> error option" where
  "Info lib api =
     (let res = NodeInfoResponse_zero
      in case do lib api http_MethodGet ''/info'' None ByPointer res of
           (Some err, res', body) \<Rightarrow> (None, Some err)
         | (None, res', body) \<Rightarrow> (Some res', None))"

definition Tips ::
    "('q, NodeTipsResponse) stdlib \<Rightarrow> NodeAPI \<Rightarrow> NodeTipsResponse option \<times> error option" where
  "Tips lib api =
     (let res = NodeTipsResponse_zero
      in case do lib api http_MethodGet ''/tips'' None ByPointer res of
           (Some err, res', body) \<Rightarrow> (None, Some err)
         | (None, res', body) \<Rightarrow> (Some res', None))"

text \<open>
  The list endpoints declare \<open>var res\<close> (the zero value: a nil slice) and hand \<open>do\<close>
  the value itself, not its address. \<open>JSONNodeMessages\<close> and its method \<open>ToMessages\<close>
  are defined outside the source file: the zero value and the method are parameters.
\<close>

definition MessagesByHash ::
    "('q, 'j) stdlib \<Rightarrow> NodeAPI \<Rightarrow> ('h \<Rightarrow> string) \<Rightarrow> 'j \<Rightarrow> ('j \<Rightarrow> 'm slice \<times> error option)
      \<Rightarrow> 'h list \<Rightarrow> 'm slice \<times> error option" where
  "MessagesByHash lib api hex JSONNodeMessages_zero ToMessages hashes =
     (let query = MessagesByHash_query hex hashes;
          res = JSONNodeMessages_zero
      in case do lib api http_MethodGet query None ByValue res of
           (Some err, res', body) \<Rightarrow> (NilSlice, Some err)
         | (None, res', body) \<Rightarrow> ToMessages res')"

definition AreMessagesReferencedByMilestone ::
    "('q, NodeObjectReferencedResponse slice) stdlib \<Rightarrow> NodeAPI \<Rightarrow> ('h \<Rightarrow> string)
      \<Rightarrow> 'h list \<Rightarrow> NodeObjectReferencedResponse slice \<times> error option" where
  "AreMessagesReferencedByMilestone lib api hex hashes =
     (let query = AreMessagesReferencedByMilestone_query hex hashes;
          res = NilSlice
      in case do lib api http_MethodGet query None ByValue res of
           (Some err, res', body) \<Rightarrow> (NilSlice, Some err)
         | (None, res', body) \<Rightarrow> (res', None))"

definition AreTransactionsReferencedByMilestone ::
    "('q, NodeObjectReferencedResponse slice) stdlib \<Rightarrow> NodeAPI \<Rightarrow> ('h \<Rightarrow> string)
      \<Rightarrow> 'h list \<Rightarrow> NodeObjectReferencedResponse slice \<times> error option" where
  "AreTransactionsReferencedByMilestone lib api hex hashes =
     (let query = AreTransactionsReferencedByMilestone_query hex hashes;
          res = NilSlice
      in case do lib api http_MethodGet query None ByValue res of
           (Some err, res', body) \<Rightarrow> (NilSlice, Some err)
         | (None, res', body) \<Rightarrow> (res', None))"

definition OutputsByHash ::
    "('q, NodeOutputResponse slice) stdlib \<Rightarrow> NodeAPI \<Rightarrow> ('h \<Rightarrow> string)
      \<Rightarrow> 'h list \<Rightarrow> NodeOutputResponse slice \<times> error option" where
  "OutputsByHash lib api hex utxosID =
     (let query = OutputsByHash_query hex utxosID;
          res = NilSlice
      in case do lib api http_MethodGet query None ByValue res of
           (Some err, res', body) \<Rightarrow> (NilSlice, Some err)
         | (None, res', body) \<Rightarrow> (res', None))"

subsection \<open>The properties in the words of the specification\<close>

text \<open>
  The status table of the specification: 400 is bad request, 401 unauthorized, 404 not
  found, 500 internal server error, 501 not implemented, anything else unknown error.
\<close>

definition status_kind :: "int \<Rightarrow> error" where
  "status_kind code =
     (if code = 400 then ErrHTTPBadRequest
      else if code = 401 then ErrHTTPUnauthorized
      else if code = 404 then ErrHTTPNotFound
      else if code = 500 then ErrHTTPInternalServerError
      else if code = 501 then ErrHTTPNotImplemented
      else ErrHTTPUnknownError)"

text \<open>
  The text a mapped status error carries: the kind, the request URL and the server's
  message.
\<close>

definition status_error :: "int \<Rightarrow> string \<Rightarrow> string \<Rightarrow> error" where
  "status_error code url message =
     Errorf (Error (status_kind code) @ '': url '' @ url @ '', error message: '' @ message)
       (status_kind code)"

text \<open>A comma-separated list: the texts in order, a comma between neighbours.\<close>

fun comma_separated :: "string list \<Rightarrow> string" where
  "comma_separated [] = []"
| "comma_separated [x] = x"
| "comma_separated (x # y # ys) = x @ '','' @ comma_separated (y # ys)"

subsection \<open>Test doubles\<close>

text \<open>
  A request constructor that accepts every URL, a mock server that answers every request
  with a fixed status and body, a transport that cannot connect, and decoders that know
  the bodies below. They give the theorems concrete inputs.
\<close>

definition test_NewRequest :: "string \<Rightarrow> string \<Rightarrow> string option \<Rightarrow> error + Request" where
  "test_NewRequest method url payload =
     Inr \<lparr>Method = method, URL = url, Payload = payload, Header = []\<rparr>"

definition test_body :: "string \<Rightarrow> ReadCloser" where
  "test_body bytes = \<lparr>stream = Inr bytes, drained = False, closed = False\<rparr>"

definition test_server :: "int \<Rightarrow> string \<Rightarrow> Request \<Rightarrow> error + Response" where
  "test_server code bytes req =
     Inr \<lparr>StatusCode = code, Body = test_body bytes, Request = req\<rparr>"


definition test_errBody :: string where
  "test_errBody = ''{\"error\":{\"code\":404,\"message\":\"message not found\"}}''"

definition test_Unmarshal_err :: "string \<Rightarrow> json_error + httperrresponse" where
  "test_Unmarshal_err bytes =
     (if bytes = test_errBody then Inr \<lparr>Code = 404, Message = ''message not found''\<rparr>
      else Inl (SyntaxError ''invalid character''))"

text \<open>
  A success-envelope decoder that knows one body: on it, it writes \<open>decoded\<close>; on any
  other body it reports a syntax error and writes nothing.
\<close>

definition test_Unmarshal_ok :: "string \<Rightarrow> 'v \<Rightarrow> string \<Rightarrow> target \<Rightarrow> 'v \<Rightarrow> error option \<times> 'v" where
  "test_Unmarshal_ok okBody decoded bytes decodeTo v =
     (if bytes = okBody then (None, decoded)
      else (Some (JSON (SyntaxError ''invalid character'')), v))"

definition test_lib :: "string \<Rightarrow> 'v \<Rightarrow> (unit, 'v) stdlib" where
  "test_lib okBody decoded =
     \<lparr>json_Marshal = (\<lambda>q. Inr ''null''),
      http_NewRequest = test_NewRequest,
      json_Unmarshal_err = test_Unmarshal_err,
      json_Unmarshal_ok = test_Unmarshal_ok okBody decoded\<rparr>"

definition test_api :: "int \<Rightarrow> string \<Rightarrow> NodeAPI" where
  "test_api code bytes = \<lparr>HTTPClient = test_server code bytes, BaseURL = ''http://node:14265''\<rparr>"

definition test_refBody :: string where
  "test_refBody = ''{\"data\":[{\"isReferencedByMilestone\":true,\"milestoneIndex\":7,\"milestoneTimestamp\":1600000000},{\"isReferencedByMilestone\":false,\"milestoneIndex\":0,\"milestoneTimestamp\":0},{\"isReferencedByMilestone\":true,\"milestoneIndex\":9,\"milestoneTimestamp\":1600000100}]}''"

definition test_refs :: "NodeObjectReferencedResponse slice" where
  "test_refs = Slice
     [\<lparr>IsReferencedByMilestone = True, MilestoneIndex = 7, MilestoneTimestamp = 1600000000\<rparr>,
      \<lparr>IsReferencedByMilestone = False, MilestoneIndex = 0, MilestoneTimestamp = 0\<rparr>,
      \<lparr>IsReferencedByMilestone = True, MilestoneIndex = 9, MilestoneTimestamp = 1600000100\<rparr>]"

definition test_tipsBody :: string where
  "test_tipsBody = ''{\"data\":{\"tip1\":\"aa\",\"tip2\":\"bb\"}}''"

definition test_tips :: NodeTipsResponse where
  "test_tips = \<lparr>Tip1 = ''aa'', Tip2 = ''bb''\<rparr>"

text \<open>A hex encoder for hashes given as byte sequences, two lower-case digits a byte.\<close>

definition hex_digit :: "nat \<Rightarrow> char" where
  "hex_digit n = ''0123456789abcdef'' ! (n mod 16)"

definition test_hex :: "8 word list \<Rightarrow> string" where
  "test_hex bytes = concat (map (\<lambda>b. [hex_digit (unat b div 16), hex_digit (unat b)]) bytes)"

definition test_outBody :: string where
  "test_outBody = ''{\"data\":[{\"address\":\"5f24\",\"amount\":1337,\"spent\":false}]}''"

definition test_outs :: "NodeOutputResponse slice" where
  "test_outs = Slice [\<lparr>Address = ''5f24'', Amount = 1337, Spent = False\<rparr>]"

definition test_infoBody :: string where
  "test_infoBody = ''{\"data\":{\"name\":\"HORNET\",\"version\":\"0.5.0\",\"isHealthy\":true,\"peers\":3}}''"

definition test_info :: NodeInfoResponse where
  "test_info = NodeInfoResponse_zero\<lparr>Name := ''HORNET'', Version := ''0.5.0'',
                 IsHealthy := True, Peers := 3\<rparr>"

text \<open>
  A stand-in for \<open>ToMessages\<close> on message lists given as texts: it rejects a list with
  an empty message and returns no messages then.
\<close>

definition test_ToMessages :: "string slice \<Rightarrow> string slice \<times> error option" where
  "test_ToMessages jsonMsgs =
     (case jsonMsgs of
        NilSlice \<Rightarrow> (Slice [], None)
      | Slice msgs \<Rightarrow>
          if [] \<in> set msgs then (NilSlice, Some (Foreign ''invalid message''))
          else (Slice msgs, None))"

section \<open>Properties\<close>

subsection \<open>Auxiliary facts about \<open>interpretBody\<close> and \<open>do\<close>\<close>

lemmas http_Status_defs =
  http_StatusOK_def http_StatusCreated_def http_StatusBadRequest_def
  http_StatusUnauthorized_def http_StatusNotFound_def http_StatusInternalServerError_def
  http_StatusNotImplemented_def

lemmas ErrHTTP_defs =
  ErrHTTPBadRequest_def ErrHTTPUnauthorized_def ErrHTTPNotFound_def
  ErrHTTPInternalServerError_def ErrHTTPNotImplemented_def ErrHTTPUnknownError_def

lemma httpCodeToErr_kind:
  "(case httpCodeToErr code of Some e \<Rightarrow> e | None \<Rightarrow> ErrHTTPUnknownError) = status_kind code"
  by (simp add: httpCodeToErr_def status_kind_def http_Status_defs)

lemma status_kind_New: "\<exists>s. status_kind code = New s"
  by (simp add: status_kind_def ErrHTTP_defs)

lemma do_obtains:
  assumes "marshal_reqObj lib reqObj = Inr data"
    and "http_NewRequest lib method (BaseURL api @ route) data = Inr req"
    and "HTTPClient api (if data \<noteq> None then Header_Set req ''Content-Type'' contentTypeJSON
                          else req) = Inr res"
  shows "do lib api method route reqObj resObj v =
           (if resObj = NilIface then (None, v, Some (Body res))
            else (case interpretBody lib res resObj v of
                    (err, v', body) \<Rightarrow> (err, v', Some body)))"
  using assms by (simp add: do_def Let_def)

lemma interpretBody_error_envelope:
  assumes "StatusCode res \<noteq> 200" and "StatusCode res \<noteq> 201"
    and "stream (Body res) = Inr resBody"
    and "json_Unmarshal_err lib resBody = Inr errRes"
  shows "interpretBody lib res decodeTo v =
           (Some (status_error (StatusCode res) (URL (Request res)) (Message errRes)),
            v, (Body res)\<lparr>drained := True, closed := True\<rparr>)"
  using assms
  by (simp add: interpretBody_def ioutil_ReadAll_def Close_def http_StatusOK_def
      http_StatusCreated_def httpCodeToErr_kind Let_def status_error_def)

lemma interpretBody_error_undecodable:
  assumes "StatusCode res \<noteq> 200" and "StatusCode res \<noteq> 201"
    and "stream (Body res) = Inr resBody"
    and "json_Unmarshal_err lib resBody = Inl jerr"
  shows "interpretBody lib res decodeTo v =
           (Some (Errorf (''unable to read error from response body: '' @ json_text jerr)
                    (JSON jerr)),
            v, (Body res)\<lparr>drained := True, closed := True\<rparr>)"
  using assms
  by (simp add: interpretBody_def ioutil_ReadAll_def Close_def http_StatusOK_def
      http_StatusCreated_def)

lemma interpretBody_success:
  assumes "StatusCode res = 200 \<or> StatusCode res = 201"
    and "stream (Body res) = Inr resBody"
  shows "interpretBody lib res decodeTo v =
           (fst (json_Unmarshal_ok lib resBody decodeTo v),
            (if decodeTo = ByPointer then snd (json_Unmarshal_ok lib resBody decodeTo v) else v),
            (Body res)\<lparr>drained := True, closed := True\<rparr>)"
  using assms
  by (auto simp add: interpretBody_def ioutil_ReadAll_def Close_def http_StatusOK_def
      http_StatusCreated_def Unmarshal_okRes_def split: prod.splits)

lemma interpretBody_read_failure:
  assumes "stream (Body res) = Inl e"
  shows "interpretBody lib res decodeTo v =
           (Some (Errorf (''unable to read response body: '' @ Error e) e), v, Body res)"
  using assms by (simp add: interpretBody_def ioutil_ReadAll_def)

lemma interpretBody_body_released:
  assumes "stream (Body res) = Inr resBody"
  shows "snd (snd (interpretBody lib res decodeTo v)) = (Body res)\<lparr>drained := True, closed := True\<rparr>"
proof (cases "StatusCode res = 200 \<or> StatusCode res = 201")
  case True
  then show ?thesis using assms by (simp add: interpretBody_success)
next
  case False
  then show ?thesis using assms
    by (cases "json_Unmarshal_err lib resBody")
       (simp_all add: interpretBody_error_undecodable interpretBody_error_envelope)
qed

lemma interpretBody_ByValue_frame:
  "decodeTo \<noteq> ByPointer \<Longrightarrow> interpretBody lib res decodeTo v = (err, v', body) \<Longrightarrow> v' = v"
  by (auto simp add: interpretBody_def Unmarshal_okRes_def Let_def
      split: prod.splits sum.splits if_splits)

lemma do_ByValue_frame:
  assumes "resObj \<noteq> ByPointer"
  shows "fst (snd (do lib api method route reqObj resObj v)) = v"
proof (cases "marshal_reqObj lib reqObj")
  case (Inl err)
  then show ?thesis by (simp add: do_def)
next
  case (Inr data)
  show ?thesis
  proof (cases "http_NewRequest lib method (BaseURL api @ route) data")
    case (Inl err)
    with Inr show ?thesis by (simp add: do_def)
  next
    case req: (Inr req)
    let ?req = "if data \<noteq> None then Header_Set req ''Content-Type'' contentTypeJSON else req"
    show ?thesis
    proof (cases "HTTPClient api ?req")
      case (Inl err)
      with Inr req show ?thesis by (simp add: do_def Let_def)
    next
      case res: (Inr res)
      obtain err v' body where ib: "interpretBody lib res resObj v = (err, v', body)"
        by (cases "interpretBody lib res resObj v") auto
      with assms have "v' = v" by (rule interpretBody_ByValue_frame)
      with ib do_obtains [OF Inr req res, of resObj v] show ?thesis by simp
    qed
  qed
qed

lemma errors_Is_status_error: "errors_Is (status_error code url message) (status_kind code)"
  by (simp add: status_error_def status_kind_def ErrHTTP_defs)

lemma foldl_comma_separated:
  "foldl (\<lambda>b s. b @ CHR '','' # s) e es = comma_separated (e # es)"
proof (induction es arbitrary: e)
  case Nil
  show ?case by simp
next
  case (Cons x xs)
  have "comma_separated ((e @ CHR '','' # x) # xs) = e @ CHR '','' # comma_separated (x # xs)"
    by (cases xs) simp_all
  with Cons show ?case by simp
qed

lemma strings_Join_comma: "strings_Join elems '','' = comma_separated elems"
proof (cases elems)
  case Nil
  then show ?thesis by (simp add: strings_Join_def)
next
  case (Cons e es)
  then show ?thesis
    by (cases es) (simp_all add: strings_Join_def foldl_comma_separated del: foldl_Cons)
qed

lemma marshal_reqObj_decoders:
  "marshal_reqObj (lib\<lparr>json_Unmarshal_err := f, json_Unmarshal_ok := g\<rparr>) reqObj =
   marshal_reqObj lib reqObj"
  by (simp add: marshal_reqObj_def split: option.splits)


lemma do_ByPointer_decoded:
  assumes "http_NewRequest lib meth (BaseURL api @ path) None = Inr req"
    and "HTTPClient api req = Inr res"
    and "StatusCode res = 200 \<or> StatusCode res = 201"
    and "stream (Body res) = Inr resBody"
    and "json_Unmarshal_ok lib resBody ByPointer v = (err, v')"
  shows "do lib api meth path None ByPointer v =
           (err, v', Some ((Body res)\<lparr>drained := True, closed := True\<rparr>))"
proof -
  have m: "marshal_reqObj lib None = Inr None"
    by (simp add: marshal_reqObj_def)
  have t: "HTTPClient api (if (None :: string option) \<noteq> None
             then Header_Set req ''Content-Type'' contentTypeJSON else req) = Inr res"
    using assms(2) by simp
  show ?thesis
    using assms(3-5) by (simp add: do_obtains [OF m assms(1) t] interpretBody_success)
qed

lemma interpretBody_nil_error:
  assumes "interpretBody lib res ByPointer v = (None, v', body)"
  shows "\<exists>resBody. (StatusCode res = 200 \<or> StatusCode res = 201)
           \<and> stream (Body res) = Inr resBody
           \<and> json_Unmarshal_ok lib resBody ByPointer v = (None, v')"
proof (cases "stream (Body res)")
  case (Inl e)
  with assms show ?thesis by (simp add: interpretBody_read_failure)
next
  case (Inr resBody)
  show ?thesis
  proof (cases "StatusCode res = 200 \<or> StatusCode res = 201")
    case True
    with assms Inr show ?thesis
      by (cases "json_Unmarshal_ok lib resBody ByPointer v")
         (auto simp add: interpretBody_success)
  next
    case False
    with assms Inr show ?thesis
      by (cases "json_Unmarshal_err lib resBody")
         (simp_all add: interpretBody_error_undecodable interpretBody_error_envelope)
  qed
qed

lemma do_ByPointer_nil_error:
  assumes "do lib api meth path None ByPointer v = (None, v', b)"
  shows "\<exists>req res resBody.
           http_NewRequest lib meth (BaseURL api @ path) None = Inr req
           \<and> HTTPClient api req = Inr res
           \<and> (StatusCode res = 200 \<or> StatusCode res = 201)
           \<and> stream (Body res) = Inr resBody
           \<and> json_Unmarshal_ok lib resBody ByPointer v = (None, v')"
proof -
  have m: "marshal_reqObj lib None = Inr None"
    by (simp add: marshal_reqObj_def)
  show ?thesis
  proof (cases "http_NewRequest lib meth (BaseURL api @ path) None")
    case (Inl e)
    with assms m show ?thesis by (simp add: do_def)
  next
    case req: (Inr req)
    show ?thesis
    proof (cases "HTTPClient api req")
      case (Inl e)
      with assms m req show ?thesis by (simp add: do_def)
    next
      case res: (Inr res)
      have t: "HTTPClient api (if (None :: string option) \<noteq> None
                 then Header_Set req ''Content-Type'' contentTypeJSON else req) = Inr res"
        using res by simp
      obtain e w body where ib: "interpretBody lib res ByPointer v = (e, w, body)"
        by (cases "interpretBody lib res ByPointer v") auto
      with assms do_obtains [OF m req t, of ByPointer v]
      have "interpretBody lib res ByPointer v = (None, v', body)" by simp
      from interpretBody_nil_error [OF this] req res show ?thesis by blast
    qed
  qed
qed

lemma by_value_result:
  "(case do lib api meth path reqObj ByValue v of
      (Some err, res, body) \<Rightarrow> (NilSlice, Some err)
    | (None, res, body) \<Rightarrow> (res, None)) = (r, e) \<Longrightarrow> r = NilSlice \<or> (r = v \<and> e = None)"
  using do_ByValue_frame [of ByValue lib api meth path reqObj v]
  by (auto split: prod.splits option.splits)

lemmas test_defs =
  test_lib_def test_api_def test_NewRequest_def test_server_def test_body_def
  test_Unmarshal_err_def test_Unmarshal_ok_def

lemmas run_defs =
  do_def marshal_reqObj_def interpretBody_def ioutil_ReadAll_def Close_def
  Unmarshal_okRes_def http_Status_defs

subsection \<open>Mapped status errors\<close>

text \<open>
  C1. For a response whose status is neither 200 nor 201 and whose body decodes as an
  error envelope, \<open>interpretBody\<close> returns an error of the kind the status table gives
  for the status code (400 bad request, 401 unauthorized, 404 not found, 500 internal
  server error, 501 not implemented, anything else unknown error): the error wraps that
  kind, and its text carries the request URL and the message the server supplied. The
  generic request cycle \<open>do\<close> returns that error whenever it obtains such a response
  for a caller that requested a response object.
\<close>

theorem C1_status_error_kind:
  assumes "StatusCode res \<noteq> 200" and "StatusCode res \<noteq> 201"
    and "stream (Body res) = Inr resBody"
    and "json_Unmarshal_err lib resBody = Inr errRes"
  shows "fst (interpretBody lib res decodeTo v) =
           Some (status_error (StatusCode res) (URL (Request res)) (Message errRes))
         \<and> errors_Is (status_error (StatusCode res) (URL (Request res)) (Message errRes))
               (status_kind (StatusCode res))
         \<and> Error (status_error (StatusCode res) (URL (Request res)) (Message errRes)) =
               Error (status_kind (StatusCode res)) @ '': url '' @ URL (Request res)
                 @ '', error message: '' @ Message errRes
         \<and> (marshal_reqObj lib reqObj = Inr data
              \<and> http_NewRequest lib method (BaseURL api @ route) data = Inr req
              \<and> HTTPClient api (if data \<noteq> None
                                 then Header_Set req ''Content-Type'' contentTypeJSON
                                 else req) = Inr res
              \<and> resObj \<noteq> NilIface \<longrightarrow>
              fst (do lib api method route reqObj resObj v) =
                Some (status_error (StatusCode res) (URL (Request res)) (Message errRes)))"
proof -
  have ib: "interpretBody lib res tgt v =
          (Some (status_error (StatusCode res) (URL (Request res)) (Message errRes)),
           v, (Body res)\<lparr>drained := True, closed := True\<rparr>)" for tgt
    using assms by (rule interpretBody_error_envelope)
  have "fst (do lib api method route reqObj resObj v) =
          Some (status_error (StatusCode res) (URL (Request res)) (Message errRes))"
    if "marshal_reqObj lib reqObj = Inr data"
      and "http_NewRequest lib method (BaseURL api @ route) data = Inr req"
      and "HTTPClient api (if data \<noteq> None
             then Header_Set req ''Content-Type'' contentTypeJSON else req) = Inr res"
      and "resObj \<noteq> NilIface"
    using that by (simp add: do_obtains ib)
  then show ?thesis
    by (simp add: ib errors_Is_status_error) (simp add: status_error_def)
qed

text \<open>A 404 answer and a 418 answer with an error envelope, against the mock server.\<close>

theorem C1_status_error_kind_witness:
  "fst (do (test_lib test_refBody test_refs) (test_api 404 test_errBody) http_MethodGet ''/info''
          None ByPointer NilSlice) =
     Some (Errorf ''not found: url http://node:14265/info, error message: message not found''
             ErrHTTPNotFound)
   \<and> errors_Is (Errorf ''not found: url http://node:14265/info, error message: message not found''
             ErrHTTPNotFound) ErrHTTPNotFound
   \<and> fst (do (test_lib test_refBody test_refs) (test_api 418 test_errBody) http_MethodGet ''/info''
          None ByValue NilSlice) =
     Some (Errorf ''unknown error: url http://node:14265/info, error message: message not found''
             ErrHTTPUnknownError)"
proof -
  let ?lib = "test_lib test_refBody test_refs :: (unit, NodeObjectReferencedResponse slice) stdlib"
  let ?req = "\<lparr>Method = http_MethodGet, URL = ''http://node:14265/info'', Payload = None,
               Header = []\<rparr>"
  let ?errRes = "\<lparr>Code = 404, Message = ''message not found''\<rparr>"
  have h1: "StatusCode \<lparr>StatusCode = 404, Body = test_body test_errBody, Request = ?req\<rparr> \<noteq> 200"
    and h2: "StatusCode \<lparr>StatusCode = 404, Body = test_body test_errBody, Request = ?req\<rparr> \<noteq> 201"
    and h1': "StatusCode \<lparr>StatusCode = 418, Body = test_body test_errBody, Request = ?req\<rparr> \<noteq> 200"
    and h2': "StatusCode \<lparr>StatusCode = 418, Body = test_body test_errBody, Request = ?req\<rparr> \<noteq> 201"
    by simp_all
  have h3: "stream (Body \<lparr>StatusCode = code, Body = test_body test_errBody, Request = ?req\<rparr>) =
              Inr test_errBody" for code
    by (simp add: test_body_def)
  have h4: "json_Unmarshal_err ?lib test_errBody = Inr ?errRes"
    by (simp add: test_lib_def test_Unmarshal_err_def)
  have g1: "marshal_reqObj ?lib None = Inr None"
    by (simp add: marshal_reqObj_def)
  have g2: "http_NewRequest ?lib http_MethodGet (BaseURL (test_api code test_errBody) @ ''/info'')
              None = Inr ?req" for code
    by (simp add: test_lib_def test_api_def test_NewRequest_def)
  have g3: "HTTPClient (test_api code test_errBody) (if (None :: string option) \<noteq> None
               then Header_Set ?req ''Content-Type'' contentTypeJSON else ?req) =
             Inr \<lparr>StatusCode = code, Body = test_body test_errBody, Request = ?req\<rparr>" for code
    by (simp add: test_api_def test_server_def)
  have g4: "ByPointer \<noteq> NilIface" and g4': "ByValue \<noteq> NilIface" by simp_all
  from C1_status_error_kind [OF h1 h2 h3 h4, of ByPointer NilSlice None None http_MethodGet
         "test_api 404 test_errBody" "''/info''" ?req ByPointer]
       C1_status_error_kind [OF h1' h2' h3 h4, of ByValue NilSlice None None http_MethodGet
         "test_api 418 test_errBody" "''/info''" ?req ByValue]
       g1 g2 g3 g4 g4'
  show ?thesis
    by (simp add: status_error_def status_kind_def ErrHTTPNotFound_def ErrHTTPUnknownError_def)
qed

subsection \<open>Success envelopes\<close>

text \<open>
  C3. For a response with status 200 or 201, \<open>interpretBody\<close> decodes the body, once
  read, as a success envelope whose \<open>data\<close> field is the caller-supplied target: it
  returns exactly the error of that decoding (nil or the decode error), and what the
  decoder wrote reaches the caller through a pointer target. A 201 response is treated as
  a 200 response. The error-envelope decoder plays no part in the result, so the error
  branch and the status mapping are not reached.
\<close>

theorem C3_success_envelope:
  assumes "StatusCode res = 200 \<or> StatusCode res = 201"
  shows "(stream (Body res) = Inr resBody \<longrightarrow>
            interpretBody lib res decodeTo v =
              (fst (json_Unmarshal_ok lib resBody decodeTo v),
               (if decodeTo = ByPointer then snd (json_Unmarshal_ok lib resBody decodeTo v)
                else v),
               (Body res)\<lparr>drained := True, closed := True\<rparr>))
         \<and> interpretBody lib (res\<lparr>StatusCode := 201\<rparr>) decodeTo v =
             interpretBody lib (res\<lparr>StatusCode := 200\<rparr>) decodeTo v
         \<and> (\<forall>f. interpretBody (lib\<lparr>json_Unmarshal_err := f\<rparr>) res decodeTo v =
                  interpretBody lib res decodeTo v)"
proof -
  have same: "interpretBody lib (res\<lparr>StatusCode := 201\<rparr>) decodeTo v =
              interpretBody lib (res\<lparr>StatusCode := 200\<rparr>) decodeTo v"
    by (simp add: interpretBody_def http_StatusOK_def http_StatusCreated_def
        split: prod.splits sum.splits)
  have indep: "interpretBody (lib\<lparr>json_Unmarshal_err := f\<rparr>) res decodeTo v =
               interpretBody lib res decodeTo v" for f
  proof (cases "stream (Body res)")
    case (Inl e)
    then show ?thesis by (simp add: interpretBody_read_failure)
  next
    case (Inr bytes)
    with assms show ?thesis by (simp add: interpretBody_success)
  qed
  from assms same indep show ?thesis by (simp add: interpretBody_success)
qed

text \<open>A 201 answer that decodes, and a 200 answer whose body is not JSON.\<close>

theorem C3_success_envelope_witness:
  "interpretBody (test_lib test_refBody test_refs)
      \<lparr>StatusCode = 201, Body = test_body test_refBody,
        Request = \<lparr>Method = ''GET'', URL = ''http://node:14265/x'', Payload = None, Header = []\<rparr>\<rparr>
      ByPointer NilSlice =
     (None, test_refs, \<lparr>stream = Inr test_refBody, drained = True, closed = True\<rparr>)
   \<and> interpretBody (test_lib test_refBody test_refs)
      \<lparr>StatusCode = 200, Body = test_body ''<html>'',
        Request = \<lparr>Method = ''GET'', URL = ''http://node:14265/x'', Payload = None, Header = []\<rparr>\<rparr>
      ByPointer NilSlice =
     (Some (JSON (SyntaxError ''invalid character'')), NilSlice,
      \<lparr>stream = Inr ''<html>'', drained = True, closed = True\<rparr>)"
proof -
  let ?lib = "test_lib test_refBody test_refs :: (unit, NodeObjectReferencedResponse slice) stdlib"
  let ?req = "\<lparr>Method = ''GET'', URL = ''http://node:14265/x'', Payload = None, Header = []\<rparr>"
  let ?created = "\<lparr>StatusCode = 201, Body = test_body test_refBody, Request = ?req\<rparr>"
  let ?ok = "\<lparr>StatusCode = 200, Body = test_body ''<html>'', Request = ?req\<rparr>"
  have c1: "StatusCode ?created = 200 \<or> StatusCode ?created = 201" by simp
  have c2: "stream (Body ?created) = Inr test_refBody" by (simp add: test_body_def)
  have o1: "StatusCode ?ok = 200 \<or> StatusCode ?ok = 201" by simp
  have o2: "stream (Body ?ok) = Inr ''<html>''" by (simp add: test_body_def)
  have ne: "''<html>'' \<noteq> test_refBody" by (simp add: test_refBody_def)
  from C3_success_envelope [OF c1, of test_refBody ?lib ByPointer NilSlice]
       C3_success_envelope [OF o1, of "''<html>''" ?lib ByPointer NilSlice] c2 o2 ne
  show ?thesis
    by (simp add: test_lib_def test_Unmarshal_ok_def test_body_def)
qed

subsection \<open>Error bodies that do not parse\<close>

text \<open>
  C4. For a response with a status other than 200 and 201 whose body has been read and
  does not parse as the error envelope, \<open>interpretBody\<close> returns the error
  \<open>unable to read error from response body\<close>, which wraps the JSON decode failure; it
  is none of the mapped status errors and wraps none of the status kinds.
\<close>

theorem C4_error_body_undecodable:
  assumes "StatusCode res \<noteq> 200" and "StatusCode res \<noteq> 201"
    and "stream (Body res) = Inr resBody"
    and "json_Unmarshal_err lib resBody = Inl jerr"
  shows "fst (interpretBody lib res decodeTo v) =
           Some (Errorf (''unable to read error from response body: '' @ json_text jerr)
                   (JSON jerr))
         \<and> errors_Is (Errorf (''unable to read error from response body: '' @ json_text jerr)
                        (JSON jerr)) (JSON jerr)
         \<and> (\<forall>code. \<not> errors_Is (Errorf (''unable to read error from response body: ''
                                            @ json_text jerr) (JSON jerr)) (status_kind code))
         \<and> (\<forall>code url message.
               Errorf (''unable to read error from response body: '' @ json_text jerr) (JSON jerr)
                 \<noteq> status_error code url message)"
proof -
  have "\<not> errors_Is (Errorf s (JSON jerr)) (status_kind code)" for s code
    using status_kind_New [of code] by auto
  moreover have "Errorf s (JSON jerr) \<noteq> status_error code url message" for s code url message
    using status_kind_New [of code] by (auto simp add: status_error_def)
  ultimately show ?thesis
    using assms by (simp add: interpretBody_error_undecodable)
qed

text \<open>A 500 answer with an HTML body.\<close>

theorem C4_error_body_undecodable_witness:
  "fst (interpretBody (test_lib test_refBody test_refs)
      \<lparr>StatusCode = 500, Body = test_body ''<html>'',
        Request = \<lparr>Method = ''GET'', URL = ''http://node:14265/x'', Payload = None, Header = []\<rparr>\<rparr>
      ByPointer NilSlice) =
     Some (Errorf ''unable to read error from response body: invalid character''
             (JSON (SyntaxError ''invalid character'')))
   \<and> \<not> errors_Is (Errorf ''unable to read error from response body: invalid character''
             (JSON (SyntaxError ''invalid character''))) (status_kind 500)"
proof -
  let ?lib = "test_lib test_refBody test_refs :: (unit, NodeObjectReferencedResponse slice) stdlib"
  let ?req = "\<lparr>Method = ''GET'', URL = ''http://node:14265/x'', Payload = None, Header = []\<rparr>"
  let ?res = "\<lparr>StatusCode = 500, Body = test_body ''<html>'', Request = ?req\<rparr>"
  have h1: "StatusCode ?res \<noteq> 200" and h2: "StatusCode ?res \<noteq> 201" by simp_all
  have h3: "stream (Body ?res) = Inr ''<html>''" by (simp add: test_body_def)
  have h4: "json_Unmarshal_err ?lib ''<html>'' = Inl (SyntaxError ''invalid character'')"
    by (simp add: test_lib_def test_Unmarshal_err_def test_errBody_def)
  from C4_error_body_undecodable [OF h1 h2 h3 h4, of ByPointer NilSlice]
  show ?thesis by (simp del: errors_Is.simps)
qed

subsection \<open>Transport failures\<close>



subsection \<open>Calls without a response object\<close>

text \<open>
  C7. When the caller passes a nil response object and the transport has produced a
  response, \<open>do\<close> returns nil at once: the body is left as the transport delivered it
  (neither read nor closed), whatever the status code and the body are, and the decoders
  play no part in the result.
\<close>

theorem C7_no_response_object:
  assumes "marshal_reqObj lib reqObj = Inr data"
    and "http_NewRequest lib method (BaseURL api @ route) data = Inr req"
    and "HTTPClient api (if data \<noteq> None then Header_Set req ''Content-Type'' contentTypeJSON
                          else req) = Inr res"
  shows "do lib api method route reqObj NilIface v = (None, v, Some (Body res))
         \<and> (\<forall>f g. do (lib\<lparr>json_Unmarshal_err := f, json_Unmarshal_ok := g\<rparr>)
                     api method route reqObj NilIface v = (None, v, Some (Body res)))"
proof -
  have "do (lib\<lparr>json_Unmarshal_err := f, json_Unmarshal_ok := g\<rparr>)
          api method route reqObj NilIface v = (None, v, Some (Body res))" for f g
  proof -
    have "marshal_reqObj (lib\<lparr>json_Unmarshal_err := f, json_Unmarshal_ok := g\<rparr>) reqObj
            = Inr data"
      using assms(1) by (simp add: marshal_reqObj_decoders)
    moreover have "http_NewRequest
            (lib\<lparr>json_Unmarshal_err := f, json_Unmarshal_ok := g\<rparr>) method
            (BaseURL api @ route) data = Inr req"
      using assms(2) by simp
    ultimately show ?thesis
      using assms(3) by (simp add: do_obtains)
  qed
  with assms show ?thesis by (simp add: do_obtains)
qed

text \<open>A POST with a payload, answered with status 500 and an HTML body.\<close>

theorem C7_no_response_object_witness:
  "do (test_lib test_refBody test_refs) (test_api 500 ''<html>'') ''POST'' ''/messages''
      (Some ()) NilIface NilSlice =
     (None, NilSlice, Some \<lparr>stream = Inr ''<html>'', drained = False, closed = False\<rparr>)"
proof -
  let ?lib = "test_lib test_refBody test_refs :: (unit, NodeObjectReferencedResponse slice) stdlib"
  let ?api = "test_api 500 ''<html>''"
  let ?req = "\<lparr>Method = ''POST'', URL = ''http://node:14265/messages'', Payload = Some ''null'',
               Header = []\<rparr>"
  let ?sent = "Header_Set ?req ''Content-Type'' contentTypeJSON"
  let ?res = "\<lparr>StatusCode = 500, Body = test_body ''<html>'', Request = ?sent\<rparr>"
  have h1: "marshal_reqObj ?lib (Some ()) = Inr (Some ''null'')"
    by (simp add: marshal_reqObj_def test_lib_def)
  have h2: "http_NewRequest ?lib ''POST'' (BaseURL ?api @ ''/messages'') (Some ''null'') = Inr ?req"
    by (simp add: test_lib_def test_api_def test_NewRequest_def)
  have h3: "HTTPClient ?api (if Some ''null'' \<noteq> None
               then Header_Set ?req ''Content-Type'' contentTypeJSON else ?req) = Inr ?res"
    by (simp add: test_api_def test_server_def)
  from C7_no_response_object [OF h1 h2 h3, of NilSlice]
  show ?thesis by (simp add: test_body_def)
qed

subsection \<open>Reading and closing the body\<close>

text \<open>
  C6, as amended. For a call that obtains a response: when a response object is requested
  and the body is read without error, the body is fully read and closed when \<open>do\<close>
  returns, on the success path, the decode-failure paths and the mapped-error path alike;
  when no response object is requested, \<open>do\<close> returns with the body untouched, neither
  read nor closed.
\<close>

theorem C6_body_released_with_target:
  assumes "marshal_reqObj lib reqObj = Inr data"
    and "http_NewRequest lib method (BaseURL api @ route) data = Inr req"
    and "HTTPClient api (if data \<noteq> None then Header_Set req ''Content-Type'' contentTypeJSON
                          else req) = Inr res"
  shows "(resObj \<noteq> NilIface \<and> stream (Body res) = Inr resBody \<longrightarrow>
            snd (snd (do lib api method route reqObj resObj v)) =
              Some ((Body res)\<lparr>drained := True, closed := True\<rparr>))
         \<and> (resObj = NilIface \<longrightarrow>
            snd (snd (do lib api method route reqObj resObj v)) = Some (Body res))"
proof -
  have "snd (snd (do lib api method route reqObj resObj v)) =
          Some ((Body res)\<lparr>drained := True, closed := True\<rparr>)"
    if "resObj \<noteq> NilIface" and "stream (Body res) = Inr resBody"
    using interpretBody_body_released [OF that(2), of lib resObj v] that(1)
    by (cases "interpretBody lib res resObj v") (simp add: do_obtains [OF assms])
  then show ?thesis by (simp add: do_obtains [OF assms])
qed

text \<open>A 404 answer to a call with a by-value target and to a call with no target.\<close>

theorem C6_body_released_with_target_witness:
  "snd (snd (do (test_lib test_refBody test_refs) (test_api 404 test_errBody) http_MethodGet
          ''/info'' None ByValue NilSlice)) =
     Some \<lparr>stream = Inr test_errBody, drained = True, closed = True\<rparr>
   \<and> snd (snd (do (test_lib test_refBody test_refs) (test_api 404 test_errBody) http_MethodGet
          ''/info'' None NilIface NilSlice)) =
     Some \<lparr>stream = Inr test_errBody, drained = False, closed = False\<rparr>"
proof -
  let ?lib = "test_lib test_refBody test_refs :: (unit, NodeObjectReferencedResponse slice) stdlib"
  let ?api = "test_api 404 test_errBody"
  let ?req = "\<lparr>Method = http_MethodGet, URL = ''http://node:14265/info'', Payload = None,
               Header = []\<rparr>"
  let ?res = "\<lparr>StatusCode = 404, Body = test_body test_errBody, Request = ?req\<rparr>"
  have h1: "marshal_reqObj ?lib None = Inr None"
    by (simp add: marshal_reqObj_def)
  have h2: "http_NewRequest ?lib http_MethodGet (BaseURL ?api @ ''/info'') None = Inr ?req"
    by (simp add: test_lib_def test_api_def test_NewRequest_def)
  have h3: "HTTPClient ?api (if (None :: string option) \<noteq> None
               then Header_Set ?req ''Content-Type'' contentTypeJSON else ?req) = Inr ?res"
    by (simp add: test_api_def test_server_def)
  have h4: "ByValue \<noteq> NilIface \<and> stream (Body ?res) = Inr test_errBody"
    by (simp add: test_body_def)
  from C6_body_released_with_target [OF h1 h2 h3, of ByValue test_errBody NilSlice]
       C6_body_released_with_target [OF h1 h2 h3, of NilIface test_errBody NilSlice] h4
  show ?thesis by (simp add: test_body_def)
qed

text \<open>
  C6 as stated does not hold on every path of a call that obtains a response: a call
  with a nil response object succeeds and leaves the body unread and open.
\<close>

theorem C6_every_path_counterexample:
  "do (test_lib test_refBody test_refs) (test_api 200 test_refBody) http_MethodGet ''/info''
      None NilIface NilSlice =
     (None, NilSlice, Some (test_body test_refBody))
   \<and> \<not> drained (test_body test_refBody) \<and> \<not> closed (test_body test_refBody)"
  by (simp add: do_def marshal_reqObj_def test_lib_def test_api_def test_NewRequest_def
      test_server_def test_body_def)

subsection \<open>Routes of the list endpoints\<close>

text \<open>
  C8. Each list endpoint builds its route as the fixed path, then \<open>?hashes=\<close>, then the
  hexadecimal texts of the inputs in input order with a comma between neighbours; for an
  empty input list the query value is empty and the parameter is still sent. Each
  endpoint hands \<open>do\<close> that route with method GET, no request object, and its result
  variable by value.
\<close>

theorem C8_hash_list_routes:
  "MessagesByHash_query hex hashes =
     ''/messages/by-hash'' @ ''?hashes='' @ comma_separated (map hex hashes)
   \<and> AreMessagesReferencedByMilestone_query hex hashes =
     ''/messages/by-hash/is-referenced-by-milestone'' @ ''?hashes=''
       @ comma_separated (map hex hashes)
   \<and> AreTransactionsReferencedByMilestone_query hex hashes =
     ''/transaction-messages/is-confirmed'' @ ''?hashes='' @ comma_separated (map hex hashes)
   \<and> OutputsByHash_query hex utxosID =
     ''/outputs/by-hash'' @ ''?hashes='' @ comma_separated (map hex utxosID)
   \<and> MessagesByHash_query hex [] = ''/messages/by-hash?hashes=''
   \<and> AreMessagesReferencedByMilestone_query hex [] =
     ''/messages/by-hash/is-referenced-by-milestone?hashes=''
   \<and> AreTransactionsReferencedByMilestone_query hex [] =
     ''/transaction-messages/is-confirmed?hashes=''
   \<and> OutputsByHash_query hex [] = ''/outputs/by-hash?hashes=''
   \<and> MessagesByHash libM api hex zero ToMessages hashes =
     (case do libM api ''GET'' (MessagesByHash_query hex hashes) None ByValue zero of
        (Some err, res, body) \<Rightarrow> (NilSlice, Some err)
      | (None, res, body) \<Rightarrow> ToMessages res)
   \<and> AreMessagesReferencedByMilestone libR api hex hashes =
     (case do libR api ''GET'' (AreMessagesReferencedByMilestone_query hex hashes) None
             ByValue NilSlice of
        (Some err, res, body) \<Rightarrow> (NilSlice, Some err)
      | (None, res, body) \<Rightarrow> (res, None))
   \<and> AreTransactionsReferencedByMilestone libR api hex hashes =
     (case do libR api ''GET'' (AreTransactionsReferencedByMilestone_query hex hashes) None
             ByValue NilSlice of
        (Some err, res, body) \<Rightarrow> (NilSlice, Some err)
      | (None, res, body) \<Rightarrow> (res, None))
   \<and> OutputsByHash libO api hex utxosID =
     (case do libO api ''GET'' (OutputsByHash_query hex utxosID) None ByValue NilSlice of
        (Some err, res, body) \<Rightarrow> (NilSlice, Some err)
      | (None, res, body) \<Rightarrow> (res, None))"
  by (simp add: MessagesByHash_query_def AreMessagesReferencedByMilestone_query_def
      AreTransactionsReferencedByMilestone_query_def OutputsByHash_query_def
      HashesToHex_def ToHex_def strings_Join_comma
      MessagesByHash_def AreMessagesReferencedByMilestone_def
      AreTransactionsReferencedByMilestone_def OutputsByHash_def http_MethodGet_def)

text \<open>Two hashes of two bytes each.\<close>

lemma hash_list_route_example:
  "AreMessagesReferencedByMilestone_query test_hex [[0x0a, 0x01], [0xff, 0x10]] =
     ''/messages/by-hash/is-referenced-by-milestone?hashes=0a01,ff10''"
  by (simp add: AreMessagesReferencedByMilestone_query_def HashesToHex_def strings_Join_def
      test_hex_def hex_digit_def)

subsection \<open>Results passed by value\<close>

text \<open>
  C10. \<open>AreMessagesReferencedByMilestone\<close>, \<open>AreTransactionsReferencedByMilestone\<close> and
  \<open>OutputsByHash\<close> hand \<open>do\<close> their nil result slice by value, and a by-value target
  never changes the caller's variable; so whenever one of them returns a nil error, the
  slice it returns is nil and has length 0, whatever the response body was.
\<close>

theorem C10_by_value_result_nil:
  "fst (snd (do lib api method route reqObj ByValue v)) = v
   \<and> (snd (AreMessagesReferencedByMilestone libR api hex hashes) = None \<longrightarrow>
        fst (AreMessagesReferencedByMilestone libR api hex hashes) = NilSlice
        \<and> len (fst (AreMessagesReferencedByMilestone libR api hex hashes)) = 0)
   \<and> (snd (AreTransactionsReferencedByMilestone libR api hex hashes) = None \<longrightarrow>
        fst (AreTransactionsReferencedByMilestone libR api hex hashes) = NilSlice
        \<and> len (fst (AreTransactionsReferencedByMilestone libR api hex hashes)) = 0)
   \<and> (snd (OutputsByHash libO api hex utxosID) = None \<longrightarrow>
        fst (OutputsByHash libO api hex utxosID) = NilSlice
        \<and> len (fst (OutputsByHash libO api hex utxosID)) = 0)"
proof -
  have a: "fst (AreMessagesReferencedByMilestone libR api hex hashes) = NilSlice"
    using by_value_result [of libR api _ _ None NilSlice]
    by (cases "AreMessagesReferencedByMilestone libR api hex hashes")
       (fastforce simp add: AreMessagesReferencedByMilestone_def)
  have b: "fst (AreTransactionsReferencedByMilestone libR api hex hashes) = NilSlice"
    using by_value_result [of libR api _ _ None NilSlice]
    by (cases "AreTransactionsReferencedByMilestone libR api hex hashes")
       (fastforce simp add: AreTransactionsReferencedByMilestone_def)
  have c: "fst (OutputsByHash libO api hex utxosID) = NilSlice"
    using by_value_result [of libO api _ _ None NilSlice]
    by (cases "OutputsByHash libO api hex utxosID")
       (fastforce simp add: OutputsByHash_def)
  show ?thesis by (simp add: a b c do_ByValue_frame)
qed

text \<open>Answers with status 200 and 201 whose bodies hold entries.\<close>

theorem C10_by_value_result_nil_witness:
  "AreMessagesReferencedByMilestone (test_lib test_refBody test_refs)
      (test_api 200 test_refBody) test_hex [[0x0a, 0x01], [0xff, 0x10]] = (NilSlice, None)
   \<and> AreTransactionsReferencedByMilestone (test_lib test_refBody test_refs)
      (test_api 201 test_refBody) test_hex [[0x0a, 0x01], [0xff, 0x10]] = (NilSlice, None)
   \<and> OutputsByHash (test_lib test_outBody test_outs)
      (test_api 200 test_outBody) test_hex [[0x0a, 0x01], [0xff, 0x10]] = (NilSlice, None)"
proof -
  let ?libR = "test_lib test_refBody test_refs :: (unit, NodeObjectReferencedResponse slice) stdlib"
  let ?libO = "test_lib test_outBody test_outs :: (unit, NodeOutputResponse slice) stdlib"
  let ?hs = "[[0x0a, 0x01], [0xff, 0x10]] :: 8 word list list"
  have m: "snd (AreMessagesReferencedByMilestone ?libR (test_api 200 test_refBody) test_hex ?hs)
             = None"
    by (simp add: AreMessagesReferencedByMilestone_def run_defs test_defs)
  have t: "snd (AreTransactionsReferencedByMilestone ?libR (test_api 201 test_refBody) test_hex ?hs)
             = None"
    by (simp add: AreTransactionsReferencedByMilestone_def run_defs test_defs)
  have o: "snd (OutputsByHash ?libO (test_api 200 test_outBody) test_hex ?hs) = None"
    by (simp add: OutputsByHash_def run_defs test_defs)
  from m C10_by_value_result_nil [of ?libR "test_api 200 test_refBody" "''GET''" "''/x''" None
         NilSlice ?libR test_hex ?hs ?libO ?hs]
  have 1: "AreMessagesReferencedByMilestone ?libR (test_api 200 test_refBody) test_hex ?hs
             = (NilSlice, None)"
    by (simp add: prod_eq_iff)
  from t C10_by_value_result_nil [of ?libR "test_api 201 test_refBody" "''GET''" "''/x''" None
         NilSlice ?libR test_hex ?hs ?libO ?hs]
  have 2: "AreTransactionsReferencedByMilestone ?libR (test_api 201 test_refBody) test_hex ?hs
             = (NilSlice, None)"
    by (simp add: prod_eq_iff)
  from o C10_by_value_result_nil [of ?libR "test_api 200 test_outBody" "''GET''" "''/x''" None
         NilSlice ?libR test_hex ?hs ?libO ?hs]
  have 3: "OutputsByHash ?libO (test_api 200 test_outBody) test_hex ?hs = (NilSlice, None)"
    by (simp add: prod_eq_iff)
  from 1 2 3 show ?thesis by simp
qed

text \<open>
  C2. \<open>AreMessagesReferencedByMilestone\<close> is documented to return one entry per input
  hash, in input order. Called with three hashes against a server that answers 200 with
  three entries, it returns a nil slice and a nil error: length 0, not 3. The same call
  of \<open>do\<close> with a pointer target delivers the three entries.
\<close>

theorem C2_result_slice_dropped:
  "AreMessagesReferencedByMilestone (test_lib test_refBody test_refs)
      (test_api 200 test_refBody) test_hex [[0x0a, 0x01], [0x0b, 0x02], [0x0c, 0x03]]
     = (NilSlice, None)
   \<and> len (NilSlice :: NodeObjectReferencedResponse slice) \<noteq> 3
   \<and> fst (snd (do (test_lib test_refBody test_refs) (test_api 200 test_refBody) http_MethodGet
         (AreMessagesReferencedByMilestone_query test_hex [[0x0a, 0x01], [0x0b, 0x02], [0x0c, 0x03]])
         None ByPointer NilSlice)) = test_refs
   \<and> len test_refs = 3"
  by (simp add: AreMessagesReferencedByMilestone_def run_defs test_defs) (simp add: test_refs_def)

subsection \<open>No partial results\<close>

text \<open>
  C9. No endpoint method returns a result together with an error. \<open>Info\<close> and \<open>Tips\<close>
  return a nil pointer exactly when they return an error. They return a populated
  result exactly when the error is nil: whenever the node answers the request with
  status 200 or 201 and a body that decodes without error, the result is a pointer to
  the struct the decoder wrote, with a nil error; and whenever the error is nil, the
  result is a pointer to the struct the decoder wrote from such an answer. The slice
  endpoints return a nil slice whenever they return an error. \<open>MessagesByHash\<close> returns
  what \<open>ToMessages\<close> returns on the zero value unless \<open>do\<close> fails, so it returns a nil
  slice with every error provided \<open>ToMessages\<close> does so on the zero value.
\<close>

theorem C9_no_partial_success:
  "((fst (Info libI api) = None) = (snd (Info libI api) \<noteq> None))
   \<and> ((fst (Tips libT api) = None) = (snd (Tips libT api) \<noteq> None))
   \<and> (http_NewRequest libI http_MethodGet (BaseURL api @ ''/info'') None = Inr reqI
        \<and> HTTPClient api reqI = Inr resI
        \<and> (StatusCode resI = 200 \<or> StatusCode resI = 201)
        \<and> stream (Body resI) = Inr bodyI
        \<and> json_Unmarshal_ok libI bodyI ByPointer NodeInfoResponse_zero = (None, info) \<longrightarrow>
        Info libI api = (Some info, None))
   \<and> (snd (Info libI api) = None \<longrightarrow>
        (\<exists>req res resBody decoded.
           http_NewRequest libI http_MethodGet (BaseURL api @ ''/info'') None = Inr req
           \<and> HTTPClient api req = Inr res
           \<and> (StatusCode res = 200 \<or> StatusCode res = 201)
           \<and> stream (Body res) = Inr resBody
           \<and> json_Unmarshal_ok libI resBody ByPointer NodeInfoResponse_zero = (None, decoded)
           \<and> fst (Info libI api) = Some decoded))
   \<and> (http_NewRequest libT http_MethodGet (BaseURL api @ ''/tips'') None = Inr reqT
        \<and> HTTPClient api reqT = Inr resT
        \<and> (StatusCode resT = 200 \<or> StatusCode resT = 201)
        \<and> stream (Body resT) = Inr bodyT
        \<and> json_Unmarshal_ok libT bodyT ByPointer NodeTipsResponse_zero = (None, tips) \<longrightarrow>
        Tips libT api = (Some tips, None))
   \<and> (snd (Tips libT api) = None \<longrightarrow>
        (\<exists>req res resBody decoded.
           http_NewRequest libT http_MethodGet (BaseURL api @ ''/tips'') None = Inr req
           \<and> HTTPClient api req = Inr res
           \<and> (StatusCode res = 200 \<or> StatusCode res = 201)
           \<and> stream (Body res) = Inr resBody
           \<and> json_Unmarshal_ok libT resBody ByPointer NodeTipsResponse_zero = (None, decoded)
           \<and> fst (Tips libT api) = Some decoded))
   \<and> (snd (AreMessagesReferencedByMilestone libR api hex hashes) \<noteq> None \<longrightarrow>
        fst (AreMessagesReferencedByMilestone libR api hex hashes) = NilSlice)
   \<and> (snd (AreTransactionsReferencedByMilestone libR api hex hashes) \<noteq> None \<longrightarrow>
        fst (AreTransactionsReferencedByMilestone libR api hex hashes) = NilSlice)
   \<and> (snd (OutputsByHash libO api hex utxosID) \<noteq> None \<longrightarrow>
        fst (OutputsByHash libO api hex utxosID) = NilSlice)
   \<and> ((snd (ToMessages zero) \<noteq> None \<longrightarrow> fst (ToMessages zero) = NilSlice) \<longrightarrow>
        snd (MessagesByHash libM api hex zero ToMessages hashes) \<noteq> None \<longrightarrow>
        fst (MessagesByHash libM api hex zero ToMessages hashes) = NilSlice)"
proof -
  have i: "(fst (Info libI api) = None) = (snd (Info libI api) \<noteq> None)"
    by (simp add: Info_def split: prod.splits option.splits)
  have t: "(fst (Tips libT api) = None) = (snd (Tips libT api) \<noteq> None)"
    by (simp add: Tips_def split: prod.splits option.splits)
  have i_fwd: "Info libI api = (Some info, None)"
    if "http_NewRequest libI http_MethodGet (BaseURL api @ ''/info'') None = Inr reqI"
      and "HTTPClient api reqI = Inr resI"
      and "StatusCode resI = 200 \<or> StatusCode resI = 201"
      and "stream (Body resI) = Inr bodyI"
      and "json_Unmarshal_ok libI bodyI ByPointer NodeInfoResponse_zero = (None, info)"
    by (simp add: Info_def do_ByPointer_decoded [OF that])
  have t_fwd: "Tips libT api = (Some tips, None)"
    if "http_NewRequest libT http_MethodGet (BaseURL api @ ''/tips'') None = Inr reqT"
      and "HTTPClient api reqT = Inr resT"
      and "StatusCode resT = 200 \<or> StatusCode resT = 201"
      and "stream (Body resT) = Inr bodyT"
      and "json_Unmarshal_ok libT bodyT ByPointer NodeTipsResponse_zero = (None, tips)"
    by (simp add: Tips_def do_ByPointer_decoded [OF that])
  have i_bwd: "\<exists>req res resBody decoded.
           http_NewRequest libI http_MethodGet (BaseURL api @ ''/info'') None = Inr req
           \<and> HTTPClient api req = Inr res
           \<and> (StatusCode res = 200 \<or> StatusCode res = 201)
           \<and> stream (Body res) = Inr resBody
           \<and> json_Unmarshal_ok libI resBody ByPointer NodeInfoResponse_zero = (None, decoded)
           \<and> fst (Info libI api) = Some decoded"
    if "snd (Info libI api) = None"
  proof -
    obtain e w b where d: "do libI api http_MethodGet ''/info'' None ByPointer
        NodeInfoResponse_zero = (e, w, b)"
      by (cases "do libI api http_MethodGet ''/info'' None ByPointer NodeInfoResponse_zero")
         auto
    with that have e: "e = None" and r: "fst (Info libI api) = Some w"
      by (cases e; simp add: Info_def)+
    from do_ByPointer_nil_error [OF d [unfolded e]] r show ?thesis by blast
  qed
  have t_bwd: "\<exists>req res resBody decoded.
           http_NewRequest libT http_MethodGet (BaseURL api @ ''/tips'') None = Inr req
           \<and> HTTPClient api req = Inr res
           \<and> (StatusCode res = 200 \<or> StatusCode res = 201)
           \<and> stream (Body res) = Inr resBody
           \<and> json_Unmarshal_ok libT resBody ByPointer NodeTipsResponse_zero = (None, decoded)
           \<and> fst (Tips libT api) = Some decoded"
    if "snd (Tips libT api) = None"
  proof -
    obtain e w b where d: "do libT api http_MethodGet ''/tips'' None ByPointer
        NodeTipsResponse_zero = (e, w, b)"
      by (cases "do libT api http_MethodGet ''/tips'' None ByPointer NodeTipsResponse_zero")
         auto
    with that have e: "e = None" and r: "fst (Tips libT api) = Some w"
      by (cases e; simp add: Tips_def)+
    from do_ByPointer_nil_error [OF d [unfolded e]] r show ?thesis by blast
  qed
  have m: "fst (MessagesByHash libM api hex zero ToMessages hashes) = NilSlice"
    if "snd (ToMessages zero) \<noteq> None \<longrightarrow> fst (ToMessages zero) = NilSlice"
      and "snd (MessagesByHash libM api hex zero ToMessages hashes) \<noteq> None"
    using that do_ByValue_frame [of ByValue libM api http_MethodGet
        "MessagesByHash_query hex hashes" None zero]
    by (auto simp add: MessagesByHash_def split: prod.splits option.splits)
  have s1: "snd (AreMessagesReferencedByMilestone libR api hex hashes) \<noteq> None \<longrightarrow>
        fst (AreMessagesReferencedByMilestone libR api hex hashes) = NilSlice"
    by (simp add: AreMessagesReferencedByMilestone_def split: prod.splits option.splits)
  have s2: "snd (AreTransactionsReferencedByMilestone libR api hex hashes) \<noteq> None \<longrightarrow>
        fst (AreTransactionsReferencedByMilestone libR api hex hashes) = NilSlice"
    by (simp add: AreTransactionsReferencedByMilestone_def split: prod.splits option.splits)
  have s3: "snd (OutputsByHash libO api hex utxosID) \<noteq> None \<longrightarrow>
        fst (OutputsByHash libO api hex utxosID) = NilSlice"
    by (simp add: OutputsByHash_def split: prod.splits option.splits)
  from i t i_fwd i_bwd t_fwd t_bwd s1 s2 s3 m show ?thesis by blast
qed

text \<open>
  Every endpoint against a server that answers 404 with an error envelope, and \<open>Info\<close>
  and \<open>Tips\<close> against a server that answers 200 with a success envelope.
\<close>

theorem C9_no_partial_success_witness:
  "Info (test_lib test_infoBody test_info) (test_api 404 test_errBody) =
     (None, Some (status_error 404 ''http://node:14265/info'' ''message not found''))
   \<and> Tips (test_lib test_tipsBody test_tips) (test_api 404 test_errBody) =
     (None, Some (status_error 404 ''http://node:14265/tips'' ''message not found''))
   \<and> fst (AreMessagesReferencedByMilestone (test_lib test_refBody test_refs)
        (test_api 404 test_errBody) test_hex [[0x0a, 0x01]]) = NilSlice
   \<and> fst (AreTransactionsReferencedByMilestone (test_lib test_refBody test_refs)
        (test_api 404 test_errBody) test_hex [[0x0a, 0x01]]) = NilSlice
   \<and> fst (OutputsByHash (test_lib test_outBody test_outs)
        (test_api 404 test_errBody) test_hex [[0x0a, 0x01]]) = NilSlice
   \<and> fst (MessagesByHash (test_lib test_tipsBody NilSlice)
        (test_api 404 test_errBody) test_hex NilSlice test_ToMessages [[0x0a, 0x01]]) = NilSlice
   \<and> Info (test_lib test_infoBody test_info) (test_api 200 test_infoBody) =
     (Some test_info, None)
   \<and> Tips (test_lib test_tipsBody test_tips) (test_api 201 test_tipsBody) =
     (Some test_tips, None)
   \<and> test_info \<noteq> NodeInfoResponse_zero \<and> test_tips \<noteq> NodeTipsResponse_zero"
proof -
  let ?api = "test_api 404 test_errBody"
  let ?libI = "test_lib test_infoBody test_info :: (unit, NodeInfoResponse) stdlib"
  let ?libT = "test_lib test_tipsBody test_tips :: (unit, NodeTipsResponse) stdlib"
  let ?libR = "test_lib test_refBody test_refs :: (unit, NodeObjectReferencedResponse slice) stdlib"
  let ?libO = "test_lib test_outBody test_outs :: (unit, NodeOutputResponse slice) stdlib"
  let ?libM = "test_lib test_tipsBody NilSlice :: (unit, string slice) stdlib"
  let ?hs = "[[0x0a, 0x01]] :: 8 word list list"
  let ?reqI = "\<lparr>Method = http_MethodGet, URL = ''http://node:14265/info'', Payload = None,
                Header = []\<rparr>"
  let ?reqT = "\<lparr>Method = http_MethodGet, URL = ''http://node:14265/tips'', Payload = None,
                Header = []\<rparr>"
  let ?resI = "\<lparr>StatusCode = 200, Body = test_body test_infoBody, Request = ?reqI\<rparr>"
  let ?resT = "\<lparr>StatusCode = 201, Body = test_body test_tipsBody, Request = ?reqT\<rparr>"
  note run = run_defs test_defs httpCodeToErr_kind status_error_def Let_def
  have i: "snd (Info ?libI ?api) =
             Some (status_error 404 ''http://node:14265/info'' ''message not found'')"
    by (simp add: Info_def http_MethodGet_def run)
  have t: "snd (Tips ?libT ?api) =
             Some (status_error 404 ''http://node:14265/tips'' ''message not found'')"
    by (simp add: Tips_def http_MethodGet_def run)
  have m: "snd (AreMessagesReferencedByMilestone ?libR ?api test_hex ?hs) \<noteq> None"
    by (simp add: AreMessagesReferencedByMilestone_def run)
  have x: "snd (AreTransactionsReferencedByMilestone ?libR ?api test_hex ?hs) \<noteq> None"
    by (simp add: AreTransactionsReferencedByMilestone_def run)
  have o: "snd (OutputsByHash ?libO ?api test_hex ?hs) \<noteq> None"
    by (simp add: OutputsByHash_def run)
  have c: "snd (test_ToMessages NilSlice) \<noteq> None \<longrightarrow> fst (test_ToMessages NilSlice) = NilSlice"
    by (simp add: test_ToMessages_def)
  have b: "snd (MessagesByHash ?libM ?api test_hex NilSlice test_ToMessages ?hs) \<noteq> None"
    by (simp add: MessagesByHash_def run)
  from C9_no_partial_success [where libI = ?libI and api = ?api and libT = ?libT
         and reqI = ?reqI and resI = ?resI and bodyI = test_infoBody and info = test_info
         and reqT = ?reqT and resT = ?resT and bodyT = test_tipsBody and tips = test_tips
         and libR = ?libR and hex = test_hex and hashes = ?hs and libO = ?libO
         and utxosID = ?hs and ToMessages = test_ToMessages and zero = NilSlice
         and libM = ?libM] i t m x o c b
  have failing:
    "Info ?libI ?api =
       (None, Some (status_error 404 ''http://node:14265/info'' ''message not found''))
     \<and> Tips ?libT ?api =
       (None, Some (status_error 404 ''http://node:14265/tips'' ''message not found''))
     \<and> fst (AreMessagesReferencedByMilestone ?libR ?api test_hex ?hs) = NilSlice
     \<and> fst (AreTransactionsReferencedByMilestone ?libR ?api test_hex ?hs) = NilSlice
     \<and> fst (OutputsByHash ?libO ?api test_hex ?hs) = NilSlice
     \<and> fst (MessagesByHash ?libM ?api test_hex NilSlice test_ToMessages ?hs) = NilSlice"
    by (simp add: prod_eq_iff)
  have i1: "http_NewRequest ?libI http_MethodGet (BaseURL (test_api 200 test_infoBody) @ ''/info'')
              None = Inr ?reqI"
    by (simp add: test_lib_def test_api_def test_NewRequest_def)
  have i2: "HTTPClient (test_api 200 test_infoBody) ?reqI = Inr ?resI"
    by (simp add: test_api_def test_server_def)
  have i3: "StatusCode ?resI = 200 \<or> StatusCode ?resI = 201" by simp
  have i4: "stream (Body ?resI) = Inr test_infoBody" by (simp add: test_body_def)
  have i5: "json_Unmarshal_ok ?libI test_infoBody ByPointer NodeInfoResponse_zero =
              (None, test_info)"
    by (simp add: test_lib_def test_Unmarshal_ok_def)
  have t1: "http_NewRequest ?libT http_MethodGet (BaseURL (test_api 201 test_tipsBody) @ ''/tips'')
              None = Inr ?reqT"
    by (simp add: test_lib_def test_api_def test_NewRequest_def)
  have t2: "HTTPClient (test_api 201 test_tipsBody) ?reqT = Inr ?resT"
    by (simp add: test_api_def test_server_def)
  have t3: "StatusCode ?resT = 200 \<or> StatusCode ?resT = 201" by simp
  have t4: "stream (Body ?resT) = Inr test_tipsBody" by (simp add: test_body_def)
  have t5: "json_Unmarshal_ok ?libT test_tipsBody ByPointer NodeTipsResponse_zero =
              (None, test_tips)"
    by (simp add: test_lib_def test_Unmarshal_ok_def)
  from C9_no_partial_success [where libI = ?libI and api = "test_api 200 test_infoBody"
         and libT = ?libT
         and reqI = ?reqI and resI = ?resI and bodyI = test_infoBody and info = test_info
         and reqT = ?reqT and resT = ?resT and bodyT = test_tipsBody and tips = test_tips
         and libR = ?libR and hex = test_hex and hashes = ?hs and libO = ?libO
         and utxosID = ?hs and ToMessages = test_ToMessages and zero = NilSlice
         and libM = ?libM]
  have "http_NewRequest ?libI http_MethodGet (BaseURL (test_api 200 test_infoBody) @ ''/info'')
          None = Inr ?reqI
        \<and> HTTPClient (test_api 200 test_infoBody) ?reqI = Inr ?resI
        \<and> (StatusCode ?resI = 200 \<or> StatusCode ?resI = 201)
        \<and> stream (Body ?resI) = Inr test_infoBody
        \<and> json_Unmarshal_ok ?libI test_infoBody ByPointer NodeInfoResponse_zero =
              (None, test_info) \<longrightarrow>
        Info ?libI (test_api 200 test_infoBody) = (Some test_info, None)"
    by (elim conjE) assumption
  with i1 i2 i3 i4 i5
  have si: "Info ?libI (test_api 200 test_infoBody) = (Some test_info, None)" by blast
  from C9_no_partial_success [where libI = ?libI and api = "test_api 201 test_tipsBody"
         and libT = ?libT
         and reqI = ?reqI and resI = ?resI and bodyI = test_infoBody and info = test_info
         and reqT = ?reqT and resT = ?resT and bodyT = test_tipsBody and tips = test_tips
         and libR = ?libR and hex = test_hex and hashes = ?hs and libO = ?libO
         and utxosID = ?hs and ToMessages = test_ToMessages and zero = NilSlice
         and libM = ?libM]
  have "http_NewRequest ?libT http_MethodGet (BaseURL (test_api 201 test_tipsBody) @ ''/tips'')
          None = Inr ?reqT
        \<and> HTTPClient (test_api 201 test_tipsBody) ?reqT = Inr ?resT
        \<and> (StatusCode ?resT = 200 \<or> StatusCode ?resT = 201)
        \<and> stream (Body ?resT) = Inr test_tipsBody
        \<and> json_Unmarshal_ok ?libT test_tipsBody ByPointer NodeTipsResponse_zero =
              (None, test_tips) \<longrightarrow>
        Tips ?libT (test_api 201 test_tipsBody) = (Some test_tips, None)"
    by (elim conjE) assumption
  with t1 t2 t3 t4 t5
  have st: "Tips ?libT (test_api 201 test_tipsBody) = (Some test_tips, None)" by blast
  have ne: "test_info \<noteq> NodeInfoResponse_zero \<and> test_tips \<noteq> NodeTipsResponse_zero"
    by (simp add: test_info_def NodeInfoResponse_zero_def test_tips_def
        NodeTipsResponse_zero_def)
  from failing si st ne show ?thesis by simp
qed

end
